theory Spec2Isabelle
  imports Main "HOL-Library.AList"
begin

section \<open>Values, objects and classes\<close>

text \<open>
  The builder stores JavaScript values without looking inside them; the only test it makes on
  a value is \<^verbatim>\<open>def !== undefined\<close>. Values are therefore the primitives, with
  \<open>Undefined\<close> a value of its own.
\<close>

datatype jsval = Undefined | Null | Bool bool | Num int | Str string

text \<open>
  An object is the list of its own enumerable properties in insertion order, which is the
  order \<^verbatim>\<open>Object.keys\<close> and \<^verbatim>\<open>Object.assign\<close> walk. A property that is present with the value
  \<open>Undefined\<close> is different from an absent one: only the first is listed by
  \<^verbatim>\<open>Object.keys\<close>. The assignment \<^verbatim>\<open>o[k] = v\<close> is \<open>AList.update k v o\<close>: an existing
  property keeps its place, a new one goes to the end.
\<close>

type_synonym obj = "(string \<times> jsval) list"

definition Object_keys :: "obj \<Rightarrow> string list" where
  "Object_keys ob = map fst ob"

definition get_prop :: "obj \<Rightarrow> string \<Rightarrow> jsval" where
  \<comment> \<open>\<^verbatim>\<open>o[k]\<close>: reading an absent property gives \<^verbatim>\<open>undefined\<close>.\<close>
  "get_prop ob k = (case map_of ob k of None \<Rightarrow> Undefined | Some v \<Rightarrow> v)"

text \<open>
  A class, as far as the builder uses one: the own properties of \<^verbatim>\<open>new ctor()\<close> (the fields
  the class initialises) and the reflect-metadata attached to its prototype, keyed by metadata
  key and property key.
\<close>

record js_class =
  construct :: obj
  metadata :: "string \<times> string \<rightharpoonup> jsval"

definition Reflect_defineMetadata :: "string \<Rightarrow> jsval \<Rightarrow> js_class \<Rightarrow> string \<Rightarrow> js_class" where
  "Reflect_defineMetadata metadataKey v target propertyKey =
     target\<lparr>metadata := (metadata target)((metadataKey, propertyKey) \<mapsto> v)\<rparr>"

definition Reflect_getMetadata :: "string \<Rightarrow> js_class \<Rightarrow> string \<Rightarrow> jsval" where
  \<comment> \<open>No entry reads as \<^verbatim>\<open>undefined\<close>, and so does an entry that holds \<^verbatim>\<open>undefined\<close>.\<close>
  "Reflect_getMetadata metadataKey target propertyKey =
     (case metadata target (metadataKey, propertyKey) of None \<Rightarrow> Undefined | Some v \<Rightarrow> v)"

subsection \<open>decorators/default-value.ts\<close>

definition DefaultValue :: "jsval \<Rightarrow> js_class \<Rightarrow> string \<Rightarrow> js_class" where
  "DefaultValue v target propertyKey = Reflect_defineMetadata ''default'' v target propertyKey"

definition getDefault :: "js_class \<Rightarrow> string \<Rightarrow> jsval" where
  "getDefault target propertyKey = Reflect_getMetadata ''default'' target propertyKey"

section \<open>BuilderService\<close>

record builder =
  the_instance :: obj
  ctor :: "js_class option"

subsection \<open>The constructor\<close>

definition apply_default :: "js_class \<Rightarrow> string \<Rightarrow> obj \<Rightarrow> obj" where
  \<comment> \<open>The body of the \<^verbatim>\<open>forEach\<close> callback of the constructor.\<close>
  "apply_default c key inst =
     (let def = Reflect_getMetadata ''default'' c key
      in if def \<noteq> Undefined then AList.update key def inst else inst)"

definition seed_defaults :: "js_class \<Rightarrow> obj \<Rightarrow> obj" where
  \<comment> \<open>\<^verbatim>\<open>Object.keys(this.instance).forEach(...)\<close>: the keys are read once, before the loop.\<close>
  "seed_defaults c inst = fold (apply_default c) (Object_keys inst) inst"

definition new_instance :: "js_class option \<Rightarrow> obj" where
  \<comment> \<open>\<^verbatim>\<open>ctor ? new ctor() : {}\<close>\<close>
  "new_instance c = (case c of Some k \<Rightarrow> construct k | None \<Rightarrow> [])"

definition new_BuilderService :: "js_class option \<Rightarrow> builder" where
  "new_BuilderService c =
     (let inst = new_instance c
      in \<lparr>the_instance = (case c of Some k \<Rightarrow> seed_defaults k inst | None \<Rightarrow> inst),
          ctor = c\<rparr>)"

definition toJSON :: "builder \<Rightarrow> obj" where
  "toJSON b = the_instance b"

subsection \<open>set, reset, from\<close>

definition set_by_key :: "string \<Rightarrow> jsval \<Rightarrow> builder \<Rightarrow> builder" where
  \<comment> \<open>The declared method \<^verbatim>\<open>set(key, value)\<close>.\<close>
  "set_by_key key v b = b\<lparr>the_instance := AList.update key v (the_instance b)\<rparr>"

definition reset :: "builder \<Rightarrow> builder" where
  "reset b = b\<lparr>the_instance := new_instance (ctor b)\<rparr>"

definition Object_assign :: "obj \<Rightarrow> obj \<Rightarrow> obj" where
  \<comment> \<open>Every own property of the source is assigned to the target, in the source's order.\<close>
  "Object_assign target src = fold (\<lambda>(k, v). AList.update k v) src target"

definition from_partial :: "obj \<Rightarrow> builder \<Rightarrow> builder" where
  \<comment> \<open>The declared method \<^verbatim>\<open>from(obj)\<close>.\<close>
  "from_partial ob b = b\<lparr>the_instance := Object_assign (the_instance b) ob\<rparr>"

subsection \<open>validateOrThrow and build\<close>

text \<open>
  The libraries \<^verbatim>\<open>class-transformer\<close> and \<^verbatim>\<open>class-validator\<close> and the host's
  \<^verbatim>\<open>JSON.stringify\<close> are not part of the repository: they are parameters of the model.
  \<^item> \<open>plainToInstance\<close> builds a new instance of the class from the state, or throws;
  \<^item> \<open>validateSync\<close> is given the class of the object it validates (none for a plain object)
    and the object. It receives the object by reference and, called with
    \<^verbatim>\<open>whitelist: true\<close>, may delete properties of it, so it returns the violations together
    with the object as it leaves it;
  \<^item> \<open>JSON_stringify\<close> serialises the array of violations.
\<close>

record violation =
  property :: string
  constraints :: "(string \<times> string) list"

datatype error =
    Error string  \<comment> \<open>\<^verbatim>\<open>new Error(message)\<close>\<close>
  | Thrown string  \<comment> \<open>whatever a library throws\<close>

record capabilities =
  plainToInstance :: "js_class \<Rightarrow> obj \<Rightarrow> error + obj"
  validateSync :: "js_class option \<Rightarrow> obj \<Rightarrow> violation list \<times> obj"
  JSON_stringify :: "violation list \<Rightarrow> string"

definition coerce :: "capabilities \<Rightarrow> obj \<Rightarrow> js_class option \<Rightarrow> error + obj" where
  \<comment> \<open>\<^verbatim>\<open>ctor ? plainToInstance(ctor, obj) : obj\<close>\<close>
  "coerce caps ob c = (case c of Some k \<Rightarrow> plainToInstance caps k ob | None \<Rightarrow> Inr ob)"

definition validateOrThrow ::
  "capabilities \<Rightarrow> obj \<Rightarrow> js_class option \<Rightarrow> (error + unit) \<times> obj" where
  \<comment> \<open>The second component is \<^verbatim>\<open>obj\<close> after the call: without a constructor the validated
      instance is \<^verbatim>\<open>obj\<close> itself, with one it is a separate object.\<close>
  "validateOrThrow caps ob c =
     (case coerce caps ob c of
        Inl e \<Rightarrow> (Inl e, ob)
      | Inr inst \<Rightarrow>
          (let (errors, inst') = validateSync caps c inst;
               ob' = (case c of Some k \<Rightarrow> ob | None \<Rightarrow> inst')
           in if length errors > 0
              then (Inl (Error (JSON_stringify caps errors)), ob')
              else (Inr (), ob')))"

definition build :: "capabilities \<Rightarrow> builder \<Rightarrow> (error + obj) \<times> builder" where
  "build caps b =
     (case validateOrThrow caps (the_instance b) (ctor b) of
        (Inl e, ob') \<Rightarrow> (Inl e, b\<lparr>the_instance := ob'\<rparr>)
      | (Inr u, ob') \<Rightarrow> (Inr ob', b\<lparr>the_instance := ob'\<rparr>))"

subsection \<open>buildAsync\<close>

datatype 'a promise = Fulfilled 'a | Rejected error

definition async :: "error + 'a \<Rightarrow> 'a promise" where
  \<comment> \<open>An \<^verbatim>\<open>async\<close> function: a returned value fulfils the promise, a thrown one rejects it.\<close>
  "async r = (case r of Inl e \<Rightarrow> Rejected e | Inr v \<Rightarrow> Fulfilled v)"

definition await :: "'a promise \<Rightarrow> error + 'a" where
  "await p = (case p of Rejected e \<Rightarrow> Inl e | Fulfilled v \<Rightarrow> Inr v)"

definition buildAsync :: "capabilities \<Rightarrow> builder \<Rightarrow> obj promise \<times> builder" where
  "buildAsync caps b = (case build caps b of (r, b') \<Rightarrow> (async r, b'))"

section \<open>The proxy\<close>

subsection \<open>String operations\<close>

text \<open>
  Property names are strings of ASCII characters; \<open>toLowerCase\<close> moves \<open>A\<close> to \<open>Z\<close> and
  leaves every other character as it is.
\<close>

definition startsWith :: "string \<Rightarrow> string \<Rightarrow> bool" where
  "startsWith s p = (take (length p) s = p)"

definition charAt :: "string \<Rightarrow> nat \<Rightarrow> string" where
  \<comment> \<open>Out of range, \<^verbatim>\<open>charAt\<close> gives the empty string.\<close>
  "charAt s i = (if i < length s then [s ! i] else [])"

definition slice :: "string \<Rightarrow> nat \<Rightarrow> string" where
  "slice s i = drop i s"

definition toLowerCase_char :: "char \<Rightarrow> char" where
  "toLowerCase_char c =
     (let n = (of_char c :: nat) in if 65 \<le> n \<and> n \<le> 90 then char_of (n + 32) else c)"

definition toLowerCase :: "string \<Rightarrow> string" where
  "toLowerCase s = map toLowerCase_char s"

subsection \<open>The get trap\<close>

datatype propkey = PString string | PSymbol nat

datatype method_name = M_set | M_build | M_buildAsync | M_reset | M_from | M_toJSON

datatype member =
    DynamicSetter string  \<comment> \<open>the closure made by the trap, with the key it captured\<close>
  | Method method_name  \<comment> \<open>a method the class declares\<close>
  | Field string  \<comment> \<open>a data property of the service\<close>
  | Absent  \<comment> \<open>\<^verbatim>\<open>undefined\<close>\<close>

definition Reflect_get :: "propkey \<Rightarrow> member" where
  \<comment> \<open>Property access on the service itself, over the members that BuilderService declares.\<close>
  "Reflect_get p =
     (case p of
        PSymbol n \<Rightarrow> Absent
      | PString s \<Rightarrow>
          (if s = ''set'' then Method M_set
           else if s = ''build'' then Method M_build
           else if s = ''buildAsync'' then Method M_buildAsync
           else if s = ''reset'' then Method M_reset
           else if s = ''from'' then Method M_from
           else if s = ''toJSON'' then Method M_toJSON
           else if s = ''instance'' \<or> s = ''ctor'' then Field s
           else Absent))"

definition setter_key :: "string \<Rightarrow> string" where
  \<comment> \<open>\<^verbatim>\<open>prop.charAt(3).toLowerCase() + prop.slice(4)\<close>\<close>
  "setter_key p = toLowerCase (charAt p 3) @ slice p 4"

definition proxy_get :: "propkey \<Rightarrow> member" where
  "proxy_get p =
     (case p of
        PString s \<Rightarrow> (if startsWith s ''set'' then DynamicSetter (setter_key s) else Reflect_get p)
      | PSymbol n \<Rightarrow> Reflect_get p)"

definition dynamic_setter :: "string \<Rightarrow> jsval list \<Rightarrow> builder \<Rightarrow> builder" where
  \<comment> \<open>The closure \<^verbatim>\<open>function (value) { self.instance[key] = value; return proxy; }\<close> applied to
      the arguments of a call: \<^verbatim>\<open>value\<close> is the first one, \<^verbatim>\<open>undefined\<close> when there is none.\<close>
  "dynamic_setter key args b =
     (let v = (case args of [] \<Rightarrow> Undefined | a # rest \<Rightarrow> a)
      in b\<lparr>the_instance := AList.update key v (the_instance b)\<rparr>)"

subsection \<open>Handles\<close>

text \<open>
  What a caller holds is a reference to the proxy. The store maps each reference to the
  service behind it; \<open>next_ref\<close> is the next reference to give out.
\<close>

type_synonym ref = nat

record world =
  cells :: "ref \<rightharpoonup> builder"
  next_ref :: ref

definition alloc_BuilderService :: "js_class option \<Rightarrow> world \<Rightarrow> ref \<times> world" where
  \<comment> \<open>\<^verbatim>\<open>new BuilderService(ctor)\<close>: the constructor returns the proxy.\<close>
  "alloc_BuilderService c w =
     (next_ref w,
      \<lparr>cells = (cells w)(next_ref w \<mapsto> new_BuilderService c), next_ref = Suc (next_ref w)\<rparr>)"

definition createBuilder :: "js_class \<Rightarrow> world \<Rightarrow> ref \<times> world" where
  \<comment> \<open>factory.ts\<close>
  "createBuilder model w = alloc_BuilderService (Some model) w"

definition call_setter :: "ref \<Rightarrow> string \<Rightarrow> jsval list \<Rightarrow> world \<Rightarrow> ref \<times> world" where
  \<comment> \<open>Calling the closure that the trap of proxy \<open>h\<close> made: it writes to the service behind
      \<open>h\<close> and returns \<open>h\<close>.\<close>
  "call_setter h key args w =
     (h, w\<lparr>cells := (cells w)(h := map_option (dynamic_setter key args) (cells w h))\<rparr>)"

fun chain :: "ref \<Rightarrow> (string \<times> jsval) list \<Rightarrow> world \<Rightarrow> ref list \<times> world" where
  \<comment> \<open>\<^verbatim>\<open>h.name1(v1).name2(v2)...\<close>: each call is made on what the one before returned. The
      handles returned are collected. The chain stops at a name that is no dynamic setter.\<close>
  "chain h [] w = ([], w)"
| "chain h ((name, v) # calls) w =
     (case proxy_get (PString name) of
        DynamicSetter key \<Rightarrow>
          (let (h', w') = call_setter h key [v] w;
               (hs, w'') = chain h' calls w'
           in (h' # hs, w''))
      | Method m \<Rightarrow> ([], w)
      | Field f \<Rightarrow> ([], w)
      | Absent \<Rightarrow> ([], w))"

section \<open>Example classes\<close>

text \<open>
  \<^verbatim>\<open>class Account { username = undefined; @DefaultValue('guest') role = undefined; }\<close>
\<close>

definition Account :: js_class where
  "Account = DefaultValue (Str ''guest'')
     \<lparr>construct = [(''username'', Undefined), (''role'', Undefined)], metadata = Map.empty\<rparr>
     ''role''"

text \<open>
  \<^verbatim>\<open>class Member { @DefaultValue(undefined) role = 'user'; }\<close>
\<close>

definition Member :: js_class where
  "Member = DefaultValue Undefined
     \<lparr>construct = [(''role'', Str ''user'')], metadata = Map.empty\<rparr> ''role''"

text \<open>
  \<^verbatim>\<open>class Person { age = undefined; }\<close> and
  \<^verbatim>\<open>class Login { username = undefined; password = undefined; }\<close>
\<close>

definition Person :: js_class where
  "Person = \<lparr>construct = [(''age'', Undefined)], metadata = Map.empty\<rparr>"

definition Login :: js_class where
  "Login =
     \<lparr>construct = [(''username'', Undefined), (''password'', Undefined)], metadata = Map.empty\<rparr>"

section \<open>Example capabilities\<close>

text \<open>
  A transformer that turns the string \<^verbatim>\<open>'5'\<close> into the number \<^verbatim>\<open>5\<close>, as a field declared
  with \<^verbatim>\<open>@Type(() => Number)\<close> is transformed, and a validator that reports every property
  whose value is not a number (every field \<^verbatim>\<open>@IsInt()\<close>).
\<close>

definition numeric_caps :: capabilities where
  "numeric_caps =
     \<lparr>plainToInstance =
        (\<lambda>c ob. Inr (map (\<lambda>(k, v). (k, if v = Str ''5'' then Num 5 else v)) ob)),
      validateSync = (\<lambda>c ob.
        (map (\<lambda>(k, v).
           \<lparr>property = k, constraints = [(''isInt'', k @ '' must be an integer number'')]\<rparr>)
           (filter (\<lambda>(k, v). case v of Num n \<Rightarrow> False | _ \<Rightarrow> True) ob), ob)),
      JSON_stringify = (\<lambda>vs. concat (map (\<lambda>v. property v @ '';'') vs))\<rparr>"

text \<open>
  A transformer that copies the state, and a validator that reports, in the order of the
  properties, each one that is \<^verbatim>\<open>undefined\<close> or the empty string (every field
  \<^verbatim>\<open>@IsNotEmpty()\<close>). The serialiser writes the names of the violating properties.
\<close>

definition required_caps :: capabilities where
  "required_caps =
     \<lparr>plainToInstance = (\<lambda>c ob. Inr ob),
      validateSync = (\<lambda>c ob.
        (map (\<lambda>(k, v).
           \<lparr>property = k, constraints = [(''isNotEmpty'', k @ '' should not be empty'')]\<rparr>)
           (filter (\<lambda>(k, v). v = Undefined \<or> v = Str []) ob), ob)),
      JSON_stringify = (\<lambda>vs. concat (map (\<lambda>v. property v @ '';'') vs))\<rparr>"

text \<open>The builder after \<^verbatim>\<open>createBuilder(Person).setAge('5')\<close>.\<close>

definition person5 :: builder where
  "person5 = dynamic_setter ''age'' [Str ''5''] (new_BuilderService (Some Person))"

section \<open>Seeding of defaults at construction\<close>

lemmas ctor_defs = new_BuilderService_def new_instance_def seed_defaults_def Object_keys_def
  apply_default_def Reflect_getMetadata_def DefaultValue_def Reflect_defineMetadata_def Let_def

lemma map_of_fold_apply_default:
  "map_of (fold (apply_default c) ks acc) k =
     (if k \<in> set ks \<and> Reflect_getMetadata ''default'' c k \<noteq> Undefined
      then Some (Reflect_getMetadata ''default'' c k) else map_of acc k)"
  by (induction ks arbitrary: acc) (auto simp: apply_default_def update_conv' Let_def)

lemma get_prop_seed_defaults:
  "get_prop (seed_defaults c inst) k =
     (if k \<in> set (Object_keys inst) \<and> getDefault c k \<noteq> Undefined
      then getDefault c k else get_prop inst k)"
  by (simp add: get_prop_def seed_defaults_def getDefault_def map_of_fold_apply_default)

lemma apply_default_cong:
  "Reflect_getMetadata ''default'' c = Reflect_getMetadata ''default'' c' \<Longrightarrow>
   apply_default c = apply_default c'"
  by (simp add: apply_default_def fun_eq_iff)

text \<open>
  C5, as amended. Let \<open>f\<close> be an own field of the bare instance of class \<open>c\<close> and let the
  default registered for \<open>f\<close> be \<open>d\<close>, a value other than \<^verbatim>\<open>undefined\<close>. Then a builder
  created for \<open>c\<close> shows \<open>f = d\<close> in \<open>toJSON\<close> before any mutator call, whatever the class's
  own initialiser gave the field.
\<close>

theorem default_shown:
  assumes "f \<in> set (Object_keys (construct c))" and "getDefault c f = d" and "d \<noteq> Undefined"
  shows "get_prop (toJSON (new_BuilderService (Some c))) f = d"
  using assms
  by (simp add: toJSON_def new_BuilderService_def new_instance_def get_prop_seed_defaults Let_def)

theorem default_shown_witness:
  "''role'' \<in> set (Object_keys (construct Account)) \<and> getDefault Account ''role'' = Str ''guest''
   \<and> Str ''guest'' \<noteq> Undefined
   \<and> get_prop (toJSON (new_BuilderService (Some Account))) ''role'' = Str ''guest''"
proof -
  have k: "''role'' \<in> set (Object_keys (construct Account))"
    by (simp add: Account_def ctor_defs)
  have d: "getDefault Account ''role'' = Str ''guest''"
    by (simp add: Account_def getDefault_def ctor_defs)
  have n: "Str ''guest'' \<noteq> Undefined" by simp
  from default_shown [OF k d n] k d show ?thesis by simp
qed

text \<open>
  C5, as stated, fails where the registered default is \<^verbatim>\<open>undefined\<close>: class \<open>Member\<close> has the
  own field \<open>role\<close> with the registered default \<^verbatim>\<open>undefined\<close>, and a fresh builder shows
  \<open>role\<close> as the initialiser's \<^verbatim>\<open>'user'\<close>.
\<close>

theorem undefined_default_not_shown:
  "''role'' \<in> set (Object_keys (construct Member))
   \<and> metadata Member (''default'', ''role'') = Some Undefined
   \<and> get_prop (toJSON (new_BuilderService (Some Member))) ''role'' = Str ''user''"
  by (simp add: Member_def toJSON_def get_prop_def ctor_defs)

text \<open>
  C10. Registering the default \<^verbatim>\<open>undefined\<close> for a field \<open>f\<close> of any class \<open>c\<close> gives a builder
  whose initial state is the one of the same class with no default entry for \<open>f\<close> at all, and
  in it \<open>f\<close> reads as in the bare instance: seeding skips the field.
\<close>

theorem undefined_default_skipped:
  "the_instance (new_BuilderService (Some (DefaultValue Undefined c f))) =
     the_instance
       (new_BuilderService (Some (c\<lparr>metadata := (metadata c)((''default'', f) := None)\<rparr>)))
   \<and> get_prop (the_instance (new_BuilderService (Some (DefaultValue Undefined c f)))) f =
     get_prop (construct c) f"
proof -
  let ?c1 = "DefaultValue Undefined c f"
  let ?c2 = "c\<lparr>metadata := (metadata c)((''default'', f) := None)\<rparr>"
  have "Reflect_getMetadata ''default'' ?c1 = Reflect_getMetadata ''default'' ?c2"
    by (auto simp: fun_eq_iff Reflect_getMetadata_def DefaultValue_def Reflect_defineMetadata_def)
  then have "apply_default ?c1 = apply_default ?c2"
    by (rule apply_default_cong)
  moreover have "construct ?c1 = construct ?c2"
    by (simp add: DefaultValue_def Reflect_defineMetadata_def)
  ultimately have eq:
    "the_instance (new_BuilderService (Some ?c1)) = the_instance (new_BuilderService (Some ?c2))"
    by (simp add: new_BuilderService_def new_instance_def seed_defaults_def Let_def)
  have "getDefault ?c1 f = Undefined"
    by (simp add: getDefault_def Reflect_getMetadata_def DefaultValue_def
        Reflect_defineMetadata_def)
  then have "get_prop (the_instance (new_BuilderService (Some ?c1))) f = get_prop (construct ?c1) f"
    by (simp add: new_BuilderService_def new_instance_def get_prop_seed_defaults Let_def)
  with eq show ?thesis
    by (simp add: DefaultValue_def Reflect_defineMetadata_def)
qed

section \<open>reset\<close>

text \<open>
  C2 at a failing input. A fresh builder for \<open>Account\<close> holds \<open>role = 'guest'\<close>; after
  \<open>reset\<close>, with no other call made, \<open>role\<close> is \<^verbatim>\<open>undefined\<close>: \<open>reset\<close> makes a new
  instance and does not run the seeding loop of the constructor.
\<close>

theorem reset_loses_defaults:
  "toJSON (new_BuilderService (Some Account)) =
     [(''username'', Undefined), (''role'', Str ''guest'')]
   \<and> toJSON (reset (new_BuilderService (Some Account))) =
     [(''username'', Undefined), (''role'', Undefined)]"
  by (simp add: toJSON_def reset_def Account_def ctor_defs)

section \<open>from\<close>

lemma map_of_fold_update:
  "map_of (fold (\<lambda>(k, v). AList.update k v) src target) = map_of target ++ map_of (rev src)"
proof (induction src arbitrary: target)
  case Nil
  show ?case by simp
next
  case (Cons p src)
  obtain k v where p: "p = (k, v)" by (cases p)
  have "map_of (fold (\<lambda>(k, v). AList.update k v) (p # src) target) =
        map_of (AList.update k v target) ++ map_of (rev src)"
    using Cons.IH [of "AList.update k v target"] by (simp add: p)
  also have "\<dots> = map_of target ++ map_of (rev (p # src))"
    by (simp add: p update_conv' fun_eq_iff map_add_def split: option.splits)
  finally show ?case .
qed

text \<open>
  C9. After \<open>from_partial ob\<close> the state is the old state overridden by \<open>ob\<close>: a key of
  \<open>ob\<close> reads as \<open>ob\<close> gives it (the last entry for the key, should the list name it twice; an
  object names each key once), and a key that \<open>ob\<close> does not have reads as before. The
  constructor is kept. From any state, \<open>from({a: 1})\<close> followed by \<open>from({b: 2})\<close> gives
  \<open>a = 1\<close> and \<open>b = 2\<close>.
\<close>

theorem from_partial_merges:
  "map_of (the_instance (from_partial ob b)) = map_of (the_instance b) ++ map_of (rev ob)
   \<and> ctor (from_partial ob b) = ctor b
   \<and> get_prop (the_instance (from_partial [(''b'', Num 2)] (from_partial [(''a'', Num 1)] b)))
        ''a'' = Num 1
   \<and> get_prop (the_instance (from_partial [(''b'', Num 2)] (from_partial [(''a'', Num 1)] b)))
        ''b'' = Num 2"
  by (simp add: from_partial_def Object_assign_def map_of_fold_update get_prop_def update_conv')

section \<open>build\<close>

lemma build_result:
  assumes "coerce caps (the_instance b) (ctor b) = Inr inst"
  shows "fst (build caps b) =
     (let (errors, inst') = validateSync caps (ctor b) inst
      in if errors \<noteq> [] then Inl (Error (JSON_stringify caps errors))
         else Inr (case ctor b of Some k \<Rightarrow> the_instance b | None \<Rightarrow> inst'))"
  using assms
  by (simp add: build_def validateOrThrow_def Let_def split: prod.splits option.splits)

text \<open>
  C1 at a failing input. After \<^verbatim>\<open>createBuilder(Person).setAge('5')\<close> the state \<open>{age: '5'}\<close> is
  transformed into \<open>{age: 5}\<close>, on which the validator reports nothing; \<open>build\<close> then returns
  the state \<open>{age: '5'}\<close> and not the instance that was validated, and on the value returned
  the same validator reports a violation for \<open>age\<close>.
\<close>

theorem build_returns_uncoerced:
  "coerce numeric_caps (the_instance person5) (ctor person5) = Inr [(''age'', Num 5)]
   \<and> fst (validateSync numeric_caps (ctor person5) [(''age'', Num 5)]) = []
   \<and> fst (build numeric_caps person5) = Inr [(''age'', Str ''5'')]
   \<and> fst (validateSync numeric_caps (ctor person5) [(''age'', Str ''5'')]) =
       [\<lparr>property = ''age'', constraints = [(''isInt'', ''age must be an integer number'')]\<rparr>]"
  by (simp add: build_def validateOrThrow_def coerce_def numeric_caps_def person5_def
      dynamic_setter_def Person_def ctor_defs)

text \<open>
  C4. Let the state be transformed (or, without a class, taken as it is) into \<open>inst\<close>, and let
  \<open>vs\<close> be the violations the validator reports on \<open>inst\<close>. If \<open>vs\<close> is not empty, \<open>build\<close>
  raises one error, whose message is the serialisation of the whole list \<open>vs\<close>; and \<open>build\<close>
  raises exactly when \<open>vs\<close> is not empty.
\<close>

theorem build_raises_aggregate:
  assumes "coerce caps (the_instance b) (ctor b) = Inr inst"
    and "vs = fst (validateSync caps (ctor b) inst)"
  shows "(vs \<noteq> [] \<longrightarrow> fst (build caps b) = Inl (Error (JSON_stringify caps vs)))
       \<and> (isl (fst (build caps b)) \<longleftrightarrow> vs \<noteq> [])"
  using assms by (simp add: build_result split: prod.splits)

theorem build_raises_aggregate_witness:
  "fst (build required_caps (new_BuilderService (Some Login))) =
     Inl (Error ''username;password;'')
   \<and> isl (fst (build required_caps (new_BuilderService (Some Login))))"
proof -
  let ?b = "new_BuilderService (Some Login)"
  let ?vs = "[\<lparr>property = ''username'',
                constraints = [(''isNotEmpty'', ''username should not be empty'')]\<rparr>,
              \<lparr>property = ''password'',
                constraints = [(''isNotEmpty'', ''password should not be empty'')]\<rparr>]"
  have i: "the_instance ?b = [(''username'', Undefined), (''password'', Undefined)]"
    by (simp add: Login_def ctor_defs)
  have c: "coerce required_caps (the_instance ?b) (ctor ?b) = Inr (the_instance ?b)"
    by (simp add: coerce_def required_caps_def new_BuilderService_def Let_def)
  have v: "?vs = fst (validateSync required_caps (ctor ?b) (the_instance ?b))"
    by (simp add: i required_caps_def)
  have s: "JSON_stringify required_caps ?vs = ''username;password;''"
    by (simp add: required_caps_def)
  from build_raises_aggregate [OF c v] s show ?thesis by simp
qed

section \<open>buildAsync\<close>

text \<open>
  C8. The promise of \<open>buildAsync\<close> is the outcome of \<open>build\<close>, fulfilled with the value
  \<open>build\<close> returns or rejected with the error it raises; awaiting it gives back that outcome,
  and the builder is left as \<open>build\<close> leaves it.
\<close>

theorem buildAsync_build:
  "await (fst (buildAsync caps b)) = fst (build caps b)
   \<and> snd (buildAsync caps b) = snd (build caps b)
   \<and> fst (buildAsync caps b) = async (fst (build caps b))"
  by (simp add: buildAsync_def await_def async_def split: prod.splits sum.splits)

section \<open>The get trap\<close>

lemma proxy_get_set_prefix:
  "proxy_get (PString (''set'' @ f)) = DynamicSetter (setter_key (''set'' @ f))"
  by (simp add: proxy_get_def startsWith_def)

lemma proxy_get_other:
  "\<not> startsWith s ''set'' \<Longrightarrow> proxy_get (PString s) = Reflect_get (PString s)"
  by (simp add: proxy_get_def)

lemma setter_key_Cons: "setter_key (''set'' @ c # rest) = toLowerCase_char c # rest"
  by (simp add: setter_key_def charAt_def slice_def toLowerCase_def)

text \<open>
  C6. For the name \<open>set\<close> followed by a character \<open>c\<close> and a rest, the trap gives the dynamic
  setter whose key is \<open>c\<close> in lower case followed by the rest unchanged; \<open>setUsername\<close> gives
  \<open>username\<close> and \<open>setIsActive\<close> gives \<open>isActive\<close>. Called with a value, the setter of a key
  assigns the value to that key of the state and changes nothing else.
\<close>

theorem dynamic_setter_field:
  "proxy_get (PString (''set'' @ c # rest)) = DynamicSetter (toLowerCase_char c # rest)
   \<and> map_of (the_instance (dynamic_setter key (v # vs) b)) = (map_of (the_instance b))(key \<mapsto> v)
   \<and> ctor (dynamic_setter key (v # vs) b) = ctor b
   \<and> proxy_get (PString ''setUsername'') = DynamicSetter ''username''
   \<and> proxy_get (PString ''setIsActive'') = DynamicSetter ''isActive''"
proof -
  have "proxy_get (PString (''set'' @ c # rest)) = DynamicSetter (toLowerCase_char c # rest)"
    by (simp only: proxy_get_set_prefix setter_key_Cons)
  moreover have "toLowerCase_char CHR ''U'' = CHR ''u''" and "toLowerCase_char CHR ''I'' = CHR ''i''"
    by code_simp+
  then have "proxy_get (PString ''setUsername'') = DynamicSetter ''username''"
    and "proxy_get (PString ''setIsActive'') = DynamicSetter ''isActive''"
    using proxy_get_set_prefix [of "''Username''"] proxy_get_set_prefix [of "''IsActive''"]
      setter_key_Cons [of "CHR ''U''" "''sername''"] setter_key_Cons [of "CHR ''I''" "''sActive''"]
    by simp_all
  ultimately show ?thesis
    by (simp add: dynamic_setter_def update_conv')
qed

text \<open>
  C3 at a failing input. The class declares \<open>set\<close>, and the trap gives for the name \<open>set\<close> a
  dynamic setter with the empty key instead. So \<^verbatim>\<open>builder.set('username', 'ali')\<close> on a fresh
  builder for \<open>Account\<close> stores the string \<^verbatim>\<open>'username'\<close> under the empty key and leaves
  \<open>username\<close> as it was; the declared method would have given \<open>username = 'ali'\<close>.
\<close>

theorem set_intercepted:
  "Reflect_get (PString ''set'') = Method M_set
   \<and> proxy_get (PString ''set'') = DynamicSetter []
   \<and> toJSON (dynamic_setter [] [Str ''username'', Str ''ali''] (new_BuilderService (Some Account))) =
       [(''username'', Undefined), (''role'', Str ''guest''), ([], Str ''username'')]
   \<and> toJSON (set_by_key ''username'' (Str ''ali'') (new_BuilderService (Some Account))) =
       [(''username'', Str ''ali''), (''role'', Str ''guest'')]"
  by (simp add: Reflect_get_def proxy_get_def startsWith_def setter_key_def charAt_def slice_def
      toLowerCase_def toJSON_def dynamic_setter_def set_by_key_def Account_def ctor_defs)

section \<open>Chains of dynamic setters\<close>

lemma chain_set_Cons:
  "chain h ((''set'' @ f, v) # cs) w =
     (h # fst (chain h cs (snd (call_setter h (setter_key (''set'' @ f)) [v] w))),
      snd (chain h cs (snd (call_setter h (setter_key (''set'' @ f)) [v] w))))"
  by (simp add: proxy_get_set_prefix call_setter_def split: prod.splits del: append.simps)

lemma chain_handles:
  "fst (chain h (map (\<lambda>(f, v). (''set'' @ f, v)) calls) w) = replicate (length calls) h"
proof (induction calls arbitrary: w)
  case Nil
  show ?case by simp
next
  case (Cons p calls)
  obtain f v where p: "p = (f, v)" by (cases p)
  show ?case
    by (simp only: p list.map prod.case chain_set_Cons fst_conv Cons.IH length_Cons
        replicate_Suc)
qed

lemma chain_next_ref:
  "next_ref (snd (chain h (map (\<lambda>(f, v). (''set'' @ f, v)) calls) w)) = next_ref w"
proof (induction calls arbitrary: w)
  case Nil
  show ?case by simp
next
  case (Cons p calls)
  obtain f v where p: "p = (f, v)" by (cases p)
  have "next_ref (snd (call_setter h (setter_key (''set'' @ f)) [v] w)) = next_ref w"
    by (simp add: call_setter_def)
  then show ?case
    by (simp only: p list.map prod.case chain_set_Cons snd_conv Cons.IH)
qed

lemma chain_cells:
  "cells (snd (chain h (map (\<lambda>(f, v). (''set'' @ f, v)) calls) w)) =
     (cells w)(h := map_option
        (fold (\<lambda>(f, v). dynamic_setter (setter_key (''set'' @ f)) [v]) calls) (cells w h))"
proof (induction calls arbitrary: w)
  case Nil
  show ?case by (simp add: option.map_ident)
next
  case (Cons p calls)
  obtain f v where p: "p = (f, v)" by (cases p)
  let ?g = "dynamic_setter (setter_key (''set'' @ f)) [v]"
  let ?w' = "snd (call_setter h (setter_key (''set'' @ f)) [v] w)"
  let ?F = "fold (\<lambda>(f, v). dynamic_setter (setter_key (''set'' @ f)) [v]) calls"
  have w': "cells ?w' = (cells w)(h := map_option ?g (cells w h))"
    by (simp add: call_setter_def)
  have "cells (snd (chain h (map (\<lambda>(f, v). (''set'' @ f, v)) (p # calls)) w)) =
        (cells ?w')(h := map_option ?F (cells ?w' h))"
    by (simp only: p list.map prod.case chain_set_Cons snd_conv Cons.IH)
  also have "\<dots> = (cells w)(h := map_option ?F (map_option ?g (cells w h)))"
    by (simp only: w' fun_upd_upd fun_upd_same)
  also have "\<dots> = (cells w)(h := map_option (?F \<circ> ?g) (cells w h))"
    by (simp only: option.map_comp)
  also have "?F \<circ> ?g =
      fold (\<lambda>(f, v). dynamic_setter (setter_key (''set'' @ f)) [v]) (p # calls)"
    by (simp only: p fold_Cons prod.case)
  finally show ?case .
qed

text \<open>
  C7. Take a handle \<open>h\<close> and any chain of calls whose names all begin with \<open>set\<close>, each made on
  what the call before returned. Every call returns \<open>h\<close>; no reference is given out (the
  next free reference is the same after the chain); and the store changes at \<open>h\<close> only, where
  the one service has received the assignments of the calls in order. For the handle that
  \<open>createBuilder\<close> returns, the service behind it after the chain is the one made at
  construction with those assignments applied.
\<close>

theorem chain_same_handle:
  "fst (chain h (map (\<lambda>(f, v). (''set'' @ f, v)) calls) w) = replicate (length calls) h
   \<and> next_ref (snd (chain h (map (\<lambda>(f, v). (''set'' @ f, v)) calls) w)) = next_ref w
   \<and> cells (snd (chain h (map (\<lambda>(f, v). (''set'' @ f, v)) calls) w)) =
       (cells w)(h := map_option
          (fold (\<lambda>(f, v). dynamic_setter (setter_key (''set'' @ f)) [v]) calls) (cells w h))
   \<and> cells (snd (chain (fst (createBuilder model w0)) (map (\<lambda>(f, v). (''set'' @ f, v)) calls)
                (snd (createBuilder model w0))))
        (fst (createBuilder model w0)) =
       Some (fold (\<lambda>(f, v). dynamic_setter (setter_key (''set'' @ f)) [v]) calls
               (new_BuilderService (Some model)))"
proof -
  have "cells (snd (createBuilder model w0)) (fst (createBuilder model w0)) =
        Some (new_BuilderService (Some model))"
    by (simp add: createBuilder_def alloc_BuilderService_def)
  then show ?thesis
    by (simp only: chain_handles chain_next_ref chain_cells simp_thms fun_upd_same
        option.map)
qed

end
